theory Spec2Isabelle
  imports Complex_Main
begin

section \<open>Python values shared by the whole module\<close>

text \<open>
  The module \<^verbatim>\<open>denoising_h.py\<close> is a bag of static functions over an EEG container.
  Every numerical operation is a call into pandas, numpy, MNE or matplotlib. The
  embedding keeps the control flow, the constants, the error handling and the printed
  lines of each function of the module, and takes each external call as a function
  parameter that returns either a raised exception or a value. Python floats are read as
  real numbers.
\<close>

datatype exn_class = ValueError | KeyError | IndexError | OSError | RuntimeError | TypeError

text \<open>
  A raised exception: its class and the text \<^verbatim>\<open>str(e)\<close>. Only subclasses of
  \<^verbatim>\<open>Exception\<close> are modelled, which is what \<^verbatim>\<open>except Exception\<close> catches.
\<close>

datatype exn = Exn exn_class string

fun str_exn :: "exn \<Rightarrow> string" where
  "str_exn (Exn c s) = s"

type_synonym 'a result = "exn + 'a"

text \<open>Sequencing of two statements: the second runs only when the first did not raise.\<close>

fun and_then :: "'a result \<Rightarrow> ('a \<Rightarrow> 'b result) \<Rightarrow> 'b result" where
  "and_then (Inl e) f = Inl e"
| "and_then (Inr x) f = f x"

text \<open>\<^verbatim>\<open>str(n)\<close> of a non-negative integer, as an f-string renders it.\<close>

definition digit_char :: "nat \<Rightarrow> char" where
  "digit_char d = ''0123456789'' ! d"

function str_nat :: "nat \<Rightarrow> string" where
  "str_nat n = (if n < 10 then [digit_char n] else str_nat (n div 10) @ [digit_char (n mod 10)])"
  by pat_completeness auto
termination
  by (relation "measure id") auto

declare str_nat.simps [simp del]

text \<open>
  \<^verbatim>\<open>str.strip()\<close> without arguments. A character is a code point below 256; the
  ones Python counts as whitespace there are 9 to 13, 28 to 32, 133 and 160.
\<close>

definition is_space :: "char \<Rightarrow> bool" where
  "is_space c =
     (let n = (of_char c :: nat)
      in (9 \<le> n \<and> n \<le> 13) \<or> (28 \<le> n \<and> n \<le> 32) \<or> n = 133 \<or> n = 160)"

definition py_strip :: "string \<Rightarrow> string" where
  "py_strip s = rev (dropWhile is_space (rev (dropWhile is_space s)))"

section \<open>Ingestion: \<^verbatim>\<open>DataPreprocess.remove_missing\<close>\<close>

text \<open>
  A data frame as pandas hands it over: the columns in order, each a label and its cells;
  a missing cell (NaN) is \<open>None\<close>. All columns of a frame have the same length. Two
  columns may carry the same label.
\<close>

type_synonym frame = "(string \<times> real option list) list"

text \<open>\<^verbatim>\<open>df.columns = df.columns.str.strip()\<close>\<close>

definition strip_columns :: "frame \<Rightarrow> frame" where
  "strip_columns df = map (\<lambda>(name, cells). (py_strip name, cells)) df"

text \<open>The columns that carry a label, in the order of the frame.\<close>

definition columns_of :: "frame \<Rightarrow> string \<Rightarrow> real option list list" where
  "columns_of df name = map snd (filter (\<lambda>(n, cells). n = name) df)"

definition notna :: "'a option \<Rightarrow> bool" where
  "notna c = (case c of None \<Rightarrow> False | Some v \<Rightarrow> True)"

text \<open>The rows in which none of the given columns has a missing cell.\<close>

fun complete_rows :: "real option list list \<Rightarrow> bool list" where
  "complete_rows [] = []"
| "complete_rows [col] = map notna col"
| "complete_rows (col # cols) = map (\<lambda>(c, b). notna c \<and> b) (zip col (complete_rows cols))"

definition keep_rows :: "bool list \<Rightarrow> 'a list \<Rightarrow> 'a list" where
  "keep_rows keep cells = map fst (filter snd (zip cells keep))"

text \<open>
  \<^verbatim>\<open>df.dropna(subset=[name])\<close>: a row is dropped, from every column, when its cell is
  missing in a column labelled \<open>name\<close>; an unknown label raises \<^verbatim>\<open>KeyError\<close>.
\<close>

definition dropna_subset :: "frame \<Rightarrow> string \<Rightarrow> frame result" where
  "dropna_subset df name =
     (case columns_of df name of
        [] \<Rightarrow> Inl (Exn KeyError (''['' @ [CHR 0x27] @ name @ [CHR 0x27] @ '']''))
      | col # cols \<Rightarrow>
          (let keep = complete_rows (col # cols)
           in Inr (map (\<lambda>(n, cells). (n, keep_rows keep cells)) df)))"

text \<open>
  \<^verbatim>\<open>df[name]\<close>: a series when one column carries the label, a frame of the columns that
  carry it when several do.
\<close>

datatype selection = Series "real option list" | DataFrame "real option list list"

definition getitem :: "frame \<Rightarrow> string \<Rightarrow> selection result" where
  "getitem df name =
     (case columns_of df name of
        [] \<Rightarrow> Inl (Exn KeyError ([CHR 0x27] @ name @ [CHR 0x27]))
      | [col] \<Rightarrow> Inr (Series col)
      | col # col' # cols \<Rightarrow> Inr (DataFrame (col # col' # cols)))"

text \<open>
  A numpy array of floats, of one or of two dimensions, NaN being \<open>None\<close>.
  \<^verbatim>\<open>.values\<close> of a series is the array of its cells, of a frame the array of its rows;
  \<^verbatim>\<open>len\<close> of an array is the length of its first axis.
\<close>

datatype ndarray = Array1 "real option list" | Array2 "real option list list"

fun values_of :: "selection \<Rightarrow> ndarray" where
  "values_of (Series col) = Array1 col"
| "values_of (DataFrame cols) = Array2 (transpose cols)"

fun len :: "ndarray \<Rightarrow> nat" where
  "len (Array1 xs) = length xs"
| "len (Array2 rows) = length rows"

definition expected_samples :: nat where
  "expected_samples = 1400000"

text \<open>
  \<^verbatim>\<open>remove_missing(csv_path)\<close>. The parameter \<open>read_csv\<close> is
  \<^verbatim>\<open>pd.read_csv(path, skiprows=n, engine='python')\<close>.
\<close>

definition remove_missing :: "(string \<Rightarrow> nat \<Rightarrow> frame result) \<Rightarrow> string \<Rightarrow> ndarray result" where
  "remove_missing read_csv csv_path =
     and_then (read_csv csv_path 11) (\<lambda>df.
     let df = strip_columns df
     in and_then (dropna_subset df ''Volt'') (\<lambda>df.
        and_then (getitem df ''Volt'') (\<lambda>volt.
          (let eeg_data = values_of volt
           in if len eeg_data \<noteq> expected_samples
              then Inl (Exn ValueError
                     (''Expected '' @ str_nat expected_samples @ '' samples, but got ''
                        @ str_nat (len eeg_data) @ '' samples.''))
              else Inr eeg_data))))"

section \<open>Printing functions\<close>

text \<open>
  A function that prints returns the lines it printed together with its outcome; the
  lines printed before an exception stay printed.
\<close>

type_synonym 'a io = "string list \<times> 'a result"

definition print :: "string \<Rightarrow> unit io" where
  "print s = ([s], Inr ())"

definition call :: "'a result \<Rightarrow> 'a io" where
  "call r = ([], r)"

fun io_then :: "'a io \<Rightarrow> ('a \<Rightarrow> 'b io) \<Rightarrow> 'b io" where
  "io_then (out, Inl e) f = (out, Inl e)"
| "io_then (out, Inr x) f = (case f x of (out', r) \<Rightarrow> (out @ out', r))"

text \<open>\<^verbatim>\<open>try: body  except Exception as e: handler\<close>\<close>

fun try_except :: "'a io \<Rightarrow> (exn \<Rightarrow> 'a io) \<Rightarrow> 'a io" where
  "try_except (out, Inl e) handler = (case handler e of (out', r) \<Rightarrow> (out @ out', r))"
| "try_except (out, Inr x) handler = (out, Inr x)"

section \<open>The MNE container\<close>

text \<open>
  \<^verbatim>\<open>mne.Info\<close> and \<^verbatim>\<open>mne.io.RawArray\<close>, with the fields the module reads and writes:
  the channel labels, the sampling rate, and \<^verbatim>\<open>_data\<close>, one row of samples per channel,
  all rows of one length.
\<close>

record info =
  ch_names :: "string list"
  sfreq :: real
  ch_types :: "string list"

record raw =
  info :: info
  data :: "real list list"

text \<open>\<^verbatim>\<open>mne.create_info(ch_names, sfreq, ch_types)\<close>\<close>

definition create_info :: "string list \<Rightarrow> real \<Rightarrow> string list \<Rightarrow> info result" where
  "create_info names rate types =
     (if rate \<le> 0 then Inl (Exn ValueError ''sfreq must be positive'')
      else if length types \<noteq> length names
      then Inl (Exn ValueError ''ch_types and ch_names must be the same length'')
      else Inr \<lparr>ch_names = names, sfreq = rate, ch_types = types\<rparr>)"

text \<open>\<^verbatim>\<open>mne.io.RawArray(data, info)\<close>\<close>

definition RawArray :: "real list list \<Rightarrow> info \<Rightarrow> raw result" where
  "RawArray d i =
     (if length d \<noteq> length (ch_names i)
      then Inl (Exn ValueError ''len(data) does not match len(info[ch_names])'')
      else Inr \<lparr>info = i, data = d\<rparr>)"

text \<open>\<^verbatim>\<open>raw.get_data()\<close>, \<^verbatim>\<open>raw.n_times\<close>, \<^verbatim>\<open>raw.times\<close> and \<^verbatim>\<open>raw.times[-1]\<close>\<close>

definition get_data :: "raw \<Rightarrow> real list list" where
  "get_data r = data r"

definition n_times :: "raw \<Rightarrow> nat" where
  "n_times r = (case data r of [] \<Rightarrow> 0 | row # _ \<Rightarrow> length row)"

definition times :: "raw \<Rightarrow> real list" where
  "times r = map (\<lambda>i. real i / sfreq (info r)) [0..<n_times r]"

definition times_last :: "raw \<Rightarrow> real result" where
  "times_last r =
     (if times r = []
      then Inl (Exn IndexError ''index -1 is out of bounds for axis 0 with size 0'')
      else Inr (last (times r)))"

section \<open>Container conversion: \<^verbatim>\<open>DataPreprocess.convert_to_fif\<close>\<close>

text \<open>
  The function returns the pair of the container and a message, or, from its
  \<^verbatim>\<open>except\<close> branch, a string.
\<close>

datatype converted = Converted raw string | ErrorText string

text \<open>\<^verbatim>\<open>eeg_data.reshape(1, -1)\<close> of a one-dimensional array\<close>

definition reshape_row :: "real list \<Rightarrow> real list list" where
  "reshape_row xs = [xs]"

text \<open>
  \<^verbatim>\<open>convert_to_fif(eeg_data)\<close>. The parameter \<open>save\<close> is
  \<^verbatim>\<open>raw.save(path, overwrite=b)\<close>; the file it writes is not followed.
\<close>

definition convert_to_fif ::
    "(raw \<Rightarrow> string \<Rightarrow> bool \<Rightarrow> unit result) \<Rightarrow> real list \<Rightarrow> converted result" where
  "convert_to_fif save eeg_data =
     (case
        (let sfreq = 5000
         in and_then (create_info [''EEG''] sfreq [''eeg'']) (\<lambda>i.
            let eeg_data = reshape_row eeg_data
            in and_then (RawArray eeg_data i) (\<lambda>r.
               let fif_path = ''eeg_data_raw.fif''
               in and_then (save r fif_path True) (\<lambda>_.
                  let message = ''CSV converted to FIF and saved at '' @ fif_path
                  in Inr (Converted r message)))))
      of
        Inr v \<Rightarrow> Inr v
      | Inl e \<Rightarrow> Inr (ErrorText (''Error occurred: '' @ str_exn e)))"

section \<open>Conditioning: class \<^verbatim>\<open>Filter\<close>\<close>

text \<open>
  The MNE calls of the conditioning stages. A method that works on the container in
  place returns the container as the call leaves it.
  \<^item> \<open>lib_resample r f npad\<close> is \<^verbatim>\<open>r.resample(f, npad=npad)\<close>;
  \<^item> \<open>lib_detrend x order\<close> is \<^verbatim>\<open>mne.filter.detrend(x, order=order)\<close>;
  \<^item> \<open>lib_filter r l h picks\<close> is \<^verbatim>\<open>r.filter(l_freq=l, h_freq=h, picks=picks)\<close>;
  \<^item> \<open>lib_notch_filter r freqs picks\<close> is \<^verbatim>\<open>r.notch_filter(freqs=freqs, picks=picks)\<close>;
  \<^item> \<open>py_str x\<close> is the text of the number \<open>x\<close> in an f-string.
\<close>

record mne_filters =
  lib_resample :: "raw \<Rightarrow> real \<Rightarrow> string \<Rightarrow> raw result"
  lib_detrend :: "real list list \<Rightarrow> nat \<Rightarrow> real list list result"
  lib_filter :: "raw \<Rightarrow> real \<Rightarrow> real \<Rightarrow> string \<Rightarrow> raw result"
  lib_notch_filter :: "raw \<Rightarrow> real list \<Rightarrow> string \<Rightarrow> raw result"
  py_str :: "real \<Rightarrow> string"

text \<open>
  \<^verbatim>\<open>apply_downsampling(raw, new_sfreq=5000)\<close>: the argument is \<open>None\<close> when the caller
  leaves the default.
\<close>

definition apply_downsampling :: "mne_filters \<Rightarrow> raw \<Rightarrow> real option \<Rightarrow> raw io" where
  "apply_downsampling L r arg =
     (let new_sfreq = (case arg of None \<Rightarrow> 5000 | Some f \<Rightarrow> f)
      in io_then (call (lib_resample L r new_sfreq ''auto'')) (\<lambda>r.
         io_then (print (''Data downsampled to '' @ py_str L new_sfreq @ '' Hz.'')) (\<lambda>_.
         call (Inr r))))"

definition apply_detrend :: "mne_filters \<Rightarrow> raw \<Rightarrow> raw result" where
  "apply_detrend L r =
     (let d = get_data r
      in and_then (lib_detrend L d 1) (\<lambda>d. Inr (r\<lparr>data := d\<rparr>)))"

definition apply_bandpass_filter :: "mne_filters \<Rightarrow> raw \<Rightarrow> raw result" where
  "apply_bandpass_filter L r = and_then (lib_filter L r 0.5 30 ''eeg'') (\<lambda>r. Inr r)"

definition apply_notch_filter :: "mne_filters \<Rightarrow> raw \<Rightarrow> raw result" where
  "apply_notch_filter L r = and_then (lib_notch_filter L r [50, 60] ''eeg'') (\<lambda>r. Inr r)"

definition apply_all_filters :: "mne_filters \<Rightarrow> raw \<Rightarrow> raw result" where
  "apply_all_filters L r =
     and_then (apply_detrend L r) (\<lambda>r.
     and_then (apply_notch_filter L r) (\<lambda>r.
     and_then (apply_bandpass_filter L r) (\<lambda>r.
     Inr r)))"

text \<open>
  \<^verbatim>\<open>np.mean(a, axis=0)\<close> of a two-dimensional array: the sum down each column,
  divided by the number of rows.
\<close>

definition n_cols :: "real list list \<Rightarrow> nat" where
  "n_cols a = (case a of [] \<Rightarrow> 0 | row # _ \<Rightarrow> length row)"

definition np_mean_axis0 :: "real list list \<Rightarrow> real list" where
  "np_mean_axis0 a =
     map (\<lambda>t. sum_list (map (\<lambda>row. row ! t) a) / real (length a)) [0..<n_cols a]"

definition average_signal :: "raw \<Rightarrow> real list io" where
  "average_signal r =
     (let d = get_data r;
          avg_data = np_mean_axis0 d
      in io_then (print (''Averaged signal computed. Length: '' @ str_nat (length avg_data)
                           @ '' samples.'')) (\<lambda>_.
         call (Inr avg_data)))"

section \<open>Plotting: \<^verbatim>\<open>Plot.plot_cropped_event_segment\<close>\<close>

text \<open>\<^verbatim>\<open>str.lower()\<close> and \<^verbatim>\<open>str.replace(' ', '_')\<close>, on ASCII text.\<close>

definition lower_char :: "char \<Rightarrow> char" where
  "lower_char c =
     (let n = (of_char c :: nat) in if 65 \<le> n \<and> n \<le> 90 then char_of (n + 32) else c)"

definition py_lower :: "string \<Rightarrow> string" where
  "py_lower s = map lower_char s"

definition replace_char :: "char \<Rightarrow> char \<Rightarrow> string \<Rightarrow> string" where
  "replace_char a b s = map (\<lambda>c. if c = a then b else c) s"

text \<open>
  The numpy, MNE and matplotlib calls of the plotting functions.
  \<^item> \<open>np_std x\<close> is \<^verbatim>\<open>np.std(x)\<close>;
  \<^item> \<open>lib_crop r tmin tmax\<close> is \<^verbatim>\<open>r.copy().crop(tmin=tmin, tmax=tmax)\<close>;
  \<^item> \<open>lib_plot r scalings n_channels duration title show\<close> is \<^verbatim>\<open>r.plot(...)\<close>;
  \<^item> \<open>lib_savefig fig path dpi\<close> is \<^verbatim>\<open>fig.savefig(path, dpi=dpi)\<close>;
  \<^item> \<open>lib_close fig\<close> is \<^verbatim>\<open>plt.close(fig)\<close>;
  \<^item> \<open>fmt_2e x\<close> is \<^verbatim>\<open>f"{x:.2e}"\<close> and \<open>fmt x\<close> is \<^verbatim>\<open>f"{x}"\<close>.
\<close>

record 'fig plot_lib =
  np_std :: "real list list \<Rightarrow> real"
  lib_crop :: "raw \<Rightarrow> real \<Rightarrow> real \<Rightarrow> raw result"
  lib_plot :: "raw \<Rightarrow> (string \<times> real) list \<Rightarrow> nat \<Rightarrow> real \<Rightarrow> string \<Rightarrow> bool \<Rightarrow> 'fig result"
  lib_savefig :: "'fig \<Rightarrow> string \<Rightarrow> nat \<Rightarrow> unit result"
  lib_close :: "'fig \<Rightarrow> unit result"
  fmt_2e :: "real \<Rightarrow> string"
  fmt :: "real \<Rightarrow> string"

definition plot_cropped_event_segment ::
    "'fig plot_lib \<Rightarrow> raw \<Rightarrow> string \<Rightarrow> real \<Rightarrow> real \<Rightarrow> unit io" where
  "plot_cropped_event_segment P r event_name start_time end_time =
     (let start_time = max 0 start_time
      in io_then (call (times_last r)) (\<lambda>last_time.
         let end_time = min last_time end_time;
             duration = end_time - start_time;
             d = get_data r;
             std_dev = np_std P d;
             dynamic_scaling = std_dev * 2;
             custom_scalings = [(''eeg'', dynamic_scaling)]
         in io_then (print (''Using dynamic scaling: '' @ fmt_2e P dynamic_scaling)) (\<lambda>_.
            io_then (print (''Cropping and plotting '' @ event_name @ '' from ''
                       @ fmt P start_time @ ''s to '' @ fmt P end_time @ ''s'')) (\<lambda>_.
            io_then (call (lib_crop P r start_time end_time)) (\<lambda>cropped_raw.
            io_then (call (lib_plot P cropped_raw custom_scalings 1 duration
                       (''EEG Signal: '' @ event_name @ '' (Cropped)'') False)) (\<lambda>fig.
            let save_path = ''wu_venv/ssEEG/denoising_MNE/output/''
                  @ replace_char (CHR '' '') (CHR ''_'') (py_lower event_name)
                  @ ''_cropped_segment.png''
            in io_then (call (lib_savefig P fig save_path 300)) (\<lambda>_.
               io_then (call (lib_close P fig)) (\<lambda>_.
               print (''Saved cropped plot for '' @ event_name @ '' at '' @ save_path)))))))))"

section \<open>Time-frequency analysis: \<^verbatim>\<open>FFT.compute_tfr_multitaper\<close>\<close>

text \<open>\<^verbatim>\<open>np.linspace(start, stop, num)\<close>\<close>

definition np_linspace :: "real \<Rightarrow> real \<Rightarrow> nat \<Rightarrow> real list" where
  "np_linspace start stop num =
     map (\<lambda>i. start + real i * ((stop - start) / real (num - 1))) [0..<num]"

text \<open>
  The MNE and matplotlib calls of the analysis.
  \<^item> \<open>make_fixed_length_epochs r duration overlap\<close> is the MNE function of that name;
  \<^item> \<open>compute_tfr ep method freqs n_cycles time_bandwidth return_itc\<close> is
    \<^verbatim>\<open>ep.compute_tfr(...)\<close>;
  \<^item> \<open>tfr_average p\<close> is \<^verbatim>\<open>p.average()\<close>;
  \<^item> \<open>tfr_plot p baseline mode title\<close> is \<^verbatim>\<open>p.plot(baseline=..., mode=..., title=...)\<close>;
  \<^item> \<open>plt_show\<close> is \<^verbatim>\<open>plt.show()\<close>.
\<close>

record ('ep, 'tfr, 'avg, 'fig) tfr_lib =
  make_fixed_length_epochs :: "raw \<Rightarrow> real \<Rightarrow> real \<Rightarrow> 'ep result"
  compute_tfr :: "'ep \<Rightarrow> string \<Rightarrow> real list \<Rightarrow> real \<Rightarrow> real \<Rightarrow> bool \<Rightarrow> 'tfr result"
  tfr_average :: "'tfr \<Rightarrow> 'avg result"
  tfr_plot :: "'avg \<Rightarrow> real option \<times> real option \<Rightarrow> string \<Rightarrow> string \<Rightarrow> 'fig result"
  plt_show :: "unit result"

text \<open>The body of the \<^verbatim>\<open>try\<close> block.\<close>

definition tfr_body :: "('ep, 'tfr, 'avg, 'fig) tfr_lib \<Rightarrow> raw \<Rightarrow> unit io" where
  "tfr_body T r =
     io_then (print ''Performing Time-Frequency Analysis using Multitaper method...'') (\<lambda>_.
     io_then (call (make_fixed_length_epochs T r 3.0 1.0)) (\<lambda>epochs.
     io_then (call (compute_tfr T epochs ''multitaper'' (np_linspace 0.5 40 100) 1.5 2.0 False))
       (\<lambda>power.
     io_then (call (tfr_average T power)) (\<lambda>power_avg.
     io_then (call (tfr_plot T power_avg (None, Some 0) ''logratio''
                ''Averaged TFR Multitaper'')) (\<lambda>fig.
     io_then (call (plt_show T)) (\<lambda>_.
     let save_path = ''wu_venv/ssEEG/denoising_MNE/output/tfr_multitaper_color_plot.png''
     in print ''TFR analysis and averaged plotting completed.''))))))"

definition compute_tfr_multitaper :: "('ep, 'tfr, 'avg, 'fig) tfr_lib \<Rightarrow> raw \<Rightarrow> unit io" where
  "compute_tfr_multitaper T r =
     try_except (tfr_body T r)
       (\<lambda>e. print (''An error occurred while performing TFR analysis: '' @ str_exn e))"

section \<open>What the module relies on from MNE\<close>

text \<open>
  A documented behaviour of MNE that the module relies on and never checks itself:
  \<^verbatim>\<open>resample\<close> leaves the container at the requested rate.
\<close>

definition resample_sets_rate :: "mne_filters \<Rightarrow> bool" where
  "resample_sets_rate L =
     (\<forall>r f npad r'. lib_resample L r f npad = Inr r' \<longrightarrow> sfreq (info r') = f)"

section \<open>Executable stand-ins for the external calls\<close>

text \<open>
  Small instances of the external calls, to run the module's functions on concrete
  inputs. \<open>toy_filters\<close> accepts every argument: detrending adds one to each sample, the
  notch filter doubles it, the band-pass filter subtracts three, so the order of the
  stages shows in the result. \<open>checking_filters\<close> differs in its resampler, which
  refuses a target rate that is not positive.
\<close>

definition str_int :: "int \<Rightarrow> string" where
  "str_int i = (if i < 0 then ''-'' @ str_nat (nat (- i)) else str_nat (nat i))"

definition toy_filters :: mne_filters where
  "toy_filters =
     \<lparr>lib_resample = (\<lambda>r f npad. Inr (r\<lparr>info := (info r)\<lparr>sfreq := f\<rparr>\<rparr>)),
      lib_detrend = (\<lambda>x order. Inr (map (map (\<lambda>v. v + 1)) x)),
      lib_filter = (\<lambda>r l h picks. Inr (r\<lparr>data := map (map (\<lambda>v. v - 3)) (data r)\<rparr>)),
      lib_notch_filter = (\<lambda>r freqs picks. Inr (r\<lparr>data := map (map (\<lambda>v. v * 2)) (data r)\<rparr>)),
      py_str = (\<lambda>x. str_int \<lfloor>x\<rfloor>)\<rparr>"

definition checking_filters :: mne_filters where
  "checking_filters =
     toy_filters
       \<lparr>lib_resample := (\<lambda>r f npad.
          if f \<le> 0 then Inl (Exn ValueError ''sfreq must be positive'')
          else lib_resample toy_filters r f npad)\<rparr>"

text \<open>A single-channel container at a given rate.\<close>

definition eeg_raw :: "real \<Rightarrow> real list \<Rightarrow> raw" where
  "eeg_raw rate xs =
     \<lparr>info = \<lparr>ch_names = [''EEG''], sfreq = rate, ch_types = [''eeg'']\<rparr>, data = [xs]\<rparr>"

text \<open>Saving to a full disk, and saving that succeeds.\<close>

definition full_disk_save :: "raw \<Rightarrow> string \<Rightarrow> bool \<Rightarrow> unit result" where
  "full_disk_save r path overwrite = Inl (Exn OSError ''[Errno 28] No space left on device'')"

definition ok_save :: "raw \<Rightarrow> string \<Rightarrow> bool \<Rightarrow> unit result" where
  "ok_save r path overwrite = Inr ()"

text \<open>
  Plotting calls that succeed, with a crop that rejects, as MNE's does, a window whose
  start lies after its end.
\<close>

definition toy_plot :: "unit plot_lib" where
  "toy_plot =
     \<lparr>np_std = (\<lambda>x. 1),
      lib_crop = (\<lambda>r tmin tmax.
        if tmax < tmin then Inl (Exn ValueError ''tmin must be less than tmax'')
        else Inr r),
      lib_plot = (\<lambda>r scalings n duration title show. Inr ()),
      lib_savefig = (\<lambda>fig path dpi. Inr ()),
      lib_close = (\<lambda>fig. Inr ()),
      fmt_2e = (\<lambda>x. str_int \<lfloor>x\<rfloor>),
      fmt = (\<lambda>x. str_int \<lfloor>x\<rfloor>)\<rparr>"

text \<open>
  Analysis calls that succeed, except that a recording shorter than one epoch yields no
  epoch, which is an error.
\<close>

definition toy_tfr :: "(unit, unit, unit, unit) tfr_lib" where
  "toy_tfr =
     \<lparr>make_fixed_length_epochs = (\<lambda>r duration overlap.
        if real (n_times r) < duration * sfreq (info r)
        then Inl (Exn ValueError ''No clean segment found'')
        else Inr ()),
      compute_tfr = (\<lambda>ep method freqs n_cycles time_bandwidth return_itc. Inr ()),
      tfr_average = (\<lambda>p. Inr ()),
      tfr_plot = (\<lambda>p baseline mode title. Inr ()),
      plt_show = Inr ()\<rparr>"

section \<open>Properties of ingestion\<close>



lemma str_nat_expected: "str_nat expected_samples = ''1400000''"
  by (simp add: expected_samples_def str_nat.simps digit_char_def)


text \<open>Whatever the frame, an array that is returned has the expected length.\<close>

lemma and_then_eq_Inr: "and_then m f = Inr y \<longleftrightarrow> (\<exists>x. m = Inr x \<and> f x = Inr y)"
  by (cases m) auto

lemma remove_missing_returns_expected_length:
  "remove_missing read_csv csv_path = Inr a \<Longrightarrow> len a = 1400000"
  by (auto simp: remove_missing_def and_then_eq_Inr Let_def expected_samples_def
      split: if_splits)

text \<open>
  Two columns whose labels both strip to \<^verbatim>\<open>Volt\<close>: only the middle row is complete
  in both, and the count that is checked and reported is 1.
\<close>

lemma remove_missing_duplicate_labels:
  "remove_missing (\<lambda>p n. Inr [(''Volt'', [Some 1, Some 2, None]),
                               ('' Volt'', [None, Some 5, Some 6])]) ''rec.csv''
     = Inl (Exn ValueError ''Expected 1400000 samples, but got 1 samples.'')"
proof -
  have one: "str_nat (Suc 0) = ''1''"
    by (simp add: str_nat.simps digit_char_def)
  show ?thesis
    by (simp add: remove_missing_def strip_columns_def py_strip_def is_space_def
        dropna_subset_def getitem_def columns_of_def keep_rows_def notna_def
        expected_samples_def str_nat_expected [unfolded expected_samples_def] one)
qed



section \<open>Properties of the conditioning chain\<close>

lemma and_then_Inr: "and_then m Inr = m"
  by (cases m) auto

lemma and_then_assoc: "and_then (and_then m f) g = and_then m (\<lambda>x. and_then (f x) g)"
  by (cases m) auto

text \<open>
  Claim C2. \<^verbatim>\<open>apply_all_filters\<close> runs detrend, then the notch filter on its result, then
  the band-pass filter on that, and returns the last container: it is the composition of
  the three stages in this order, a stage that raises ending the chain.
\<close>

theorem apply_all_filters_order:
  "apply_all_filters L r
     = and_then (and_then (apply_detrend L r) (apply_notch_filter L)) (apply_bandpass_filter L)
   \<and> (\<forall>r1 r2 r3. apply_detrend L r = Inr r1 \<longrightarrow> apply_notch_filter L r1 = Inr r2
          \<longrightarrow> apply_bandpass_filter L r2 = Inr r3 \<longrightarrow> apply_all_filters L r = Inr r3)"
proof -
  have eq: "apply_all_filters L r
     = and_then (and_then (apply_detrend L r) (apply_notch_filter L)) (apply_bandpass_filter L)"
    unfolding apply_all_filters_def by (simp add: and_then_assoc and_then_Inr)
  show ?thesis
    by (rule conjI [OF eq]) (simp add: eq)
qed

text \<open>
  With the stand-in stages each sample \<open>v\<close> becomes \<open>(v + 1) * 2 - 3\<close>, which no other
  order of the three yields.
\<close>

theorem apply_all_filters_order_witness:
  "apply_all_filters toy_filters (eeg_raw 5000 [1, 2, 3]) = Inr (eeg_raw 5000 [1, 3, 5])"
  using apply_all_filters_order [of toy_filters "eeg_raw 5000 [1, 2, 3]"]
  by (simp add: apply_detrend_def apply_notch_filter_def apply_bandpass_filter_def
      toy_filters_def eeg_raw_def get_data_def)

section \<open>Properties of container conversion\<close>

lemma convert_to_fif_run:
  "convert_to_fif save eeg_data =
      (case save (eeg_raw 5000 eeg_data) ''eeg_data_raw.fif'' True of
         Inl e \<Rightarrow> Inr (ErrorText (''Error occurred: '' @ str_exn e))
       | Inr u \<Rightarrow> Inr (Converted (eeg_raw 5000 eeg_data)
                     ''CSV converted to FIF and saved at eeg_data_raw.fif''))"
  by (simp add: convert_to_fif_def create_info_def RawArray_def reshape_row_def eeg_raw_def
      split: sum.splits)

text \<open>
  Against claim C4 as stated. When saving fails on a full disk, \<^verbatim>\<open>convert_to_fif\<close>
  raises nothing: it returns the text of the error.
\<close>

theorem convert_to_fif_returns_error_text_counterexample:
  "full_disk_save (eeg_raw 5000 [1, 2, 3]) ''eeg_data_raw.fif'' True
     = Inl (Exn OSError ''[Errno 28] No space left on device'')
   \<and> convert_to_fif full_disk_save [1, 2, 3]
     = Inr (ErrorText ''Error occurred: [Errno 28] No space left on device'')"
  by (simp add: convert_to_fif_def create_info_def RawArray_def reshape_row_def
      full_disk_save_def)

text \<open>
  Claim C4, amended. \<^verbatim>\<open>convert_to_fif\<close> never raises. When writing the artifact fails
  with an exception \<open>e\<close>, the function catches it and returns the string
  \<^verbatim>\<open>Error occurred: \<close> followed by the text of \<open>e\<close>, in place of the pair of container and
  message that it returns when the write succeeds.
\<close>

theorem convert_to_fif_catches:
  "(\<exists>v. convert_to_fif save eeg_data = Inr v)
   \<and> (\<forall>e. save (eeg_raw 5000 eeg_data) ''eeg_data_raw.fif'' True = Inl e
        \<longrightarrow> convert_to_fif save eeg_data = Inr (ErrorText (''Error occurred: '' @ str_exn e)))
   \<and> (save (eeg_raw 5000 eeg_data) ''eeg_data_raw.fif'' True = Inr ()
        \<longrightarrow> convert_to_fif save eeg_data
            = Inr (Converted (eeg_raw 5000 eeg_data)
                     ''CSV converted to FIF and saved at eeg_data_raw.fif''))"
  by (simp add: convert_to_fif_run split: sum.splits)

theorem convert_to_fif_catches_witness:
  "convert_to_fif full_disk_save [1, 2, 3]
     = Inr (ErrorText ''Error occurred: [Errno 28] No space left on device'')
   \<and> convert_to_fif ok_save [1, 2, 3]
     = Inr (Converted (eeg_raw 5000 [1, 2, 3])
              ''CSV converted to FIF and saved at eeg_data_raw.fif'')"
  using convert_to_fif_catches [of full_disk_save "[1, 2, 3]"]
    convert_to_fif_catches [of ok_save "[1, 2, 3]"]
  by (simp add: full_disk_save_def ok_save_def)

section \<open>Properties of the time-frequency analysis\<close>

lemma try_except_outcome:
  "try_except body (\<lambda>e. print (w e)) =
     (case body of (out, Inl e) \<Rightarrow> (out @ [w e], Inr ()) | (out, Inr x) \<Rightarrow> (out, Inr x))"
proof (cases body)
  case (Pair out res)
  then show ?thesis
    by (cases res) (simp_all add: print_def)
qed

text \<open>
  Claim C5. \<^verbatim>\<open>compute_tfr_multitaper\<close> always returns normally. Whatever exception a
  call inside its \<^verbatim>\<open>try\<close> block raises is caught there and reported in a printed
  line; so it is when the recording is too short for the epochs, the first call failing.
\<close>

theorem tfr_failures_are_caught:
  "snd (compute_tfr_multitaper T r) = Inr ()
   \<and> (\<forall>out e. tfr_body T r = (out, Inl e) \<longrightarrow>
         compute_tfr_multitaper T r
           = (out @ [''An error occurred while performing TFR analysis: '' @ str_exn e], Inr ()))
   \<and> (\<forall>e. make_fixed_length_epochs T r 3 1 = Inl e \<longrightarrow>
         compute_tfr_multitaper T r
           = ([''Performing Time-Frequency Analysis using Multitaper method...'',
               ''An error occurred while performing TFR analysis: '' @ str_exn e], Inr ()))"
proof -
  have first: "tfr_body T r
      = ([''Performing Time-Frequency Analysis using Multitaper method...''], Inl e)"
    if "make_fixed_length_epochs T r 3 1 = Inl e" for e
    using that by (simp add: tfr_body_def print_def call_def)
  show ?thesis
    unfolding compute_tfr_multitaper_def try_except_outcome
    by (auto simp: first split: prod.splits sum.splits)
qed

text \<open>Three samples at 5000 Hz are shorter than one epoch of three seconds.\<close>

theorem tfr_failures_are_caught_witness:
  "compute_tfr_multitaper toy_tfr (eeg_raw 5000 [1, 2, 3])
     = ([''Performing Time-Frequency Analysis using Multitaper method...'',
         ''An error occurred while performing TFR analysis: No clean segment found''], Inr ())"
proof -
  have "make_fixed_length_epochs toy_tfr (eeg_raw 5000 [1, 2, 3]) 3 1
          = Inl (Exn ValueError ''No clean segment found'')"
    by (simp add: toy_tfr_def eeg_raw_def n_times_def)
  then show ?thesis
    using tfr_failures_are_caught [of toy_tfr "eeg_raw 5000 [1, 2, 3]"] by simp
qed

section \<open>Properties of resampling\<close>

text \<open>
  Against claim C8 as stated. The resample operation holds no check of the target rate:
  asked for -5 Hz, it calls the resampler, and with one that accepts the rate it reports
  success and returns the container at -5 Hz.
\<close>

theorem resample_accepts_any_rate_counterexample:
  "apply_downsampling toy_filters (eeg_raw 5000 [1, 2, 3]) (Some (- 5))
     = ([''Data downsampled to -5 Hz.''], Inr (eeg_raw (- 5) [1, 2, 3]))"
  by (simp add: apply_downsampling_def toy_filters_def eeg_raw_def call_def print_def
      str_int_def str_nat.simps digit_char_def)

text \<open>
  Claim C8, amended. The resample operation validates nothing itself: for every target
  rate, positive or not, it calls the external resampler with that rate and
  \<^verbatim>\<open>npad="auto"\<close>. It fails when, and only when, that call raises, with that exception
  and nothing printed; otherwise it prints the rate and returns the resampled container.
\<close>

theorem resample_delegates_unchecked:
  "(\<forall>e. lib_resample L r f ''auto'' = Inl e
        \<longrightarrow> apply_downsampling L r (Some f) = ([], Inl e))
   \<and> (\<forall>r'. lib_resample L r f ''auto'' = Inr r'
        \<longrightarrow> apply_downsampling L r (Some f)
            = ([''Data downsampled to '' @ py_str L f @ '' Hz.''], Inr r'))"
  by (simp add: apply_downsampling_def call_def print_def)

text \<open>A rate of 0 Hz is refused only by a resampler that refuses it.\<close>

theorem resample_delegates_unchecked_witness:
  "apply_downsampling checking_filters (eeg_raw 5000 [1, 2, 3]) (Some 0)
     = ([], Inl (Exn ValueError ''sfreq must be positive''))
   \<and> apply_downsampling toy_filters (eeg_raw 5000 [1, 2, 3]) (Some 0)
     = ([''Data downsampled to 0 Hz.''], Inr (eeg_raw 0 [1, 2, 3]))"
  using resample_delegates_unchecked [of checking_filters "eeg_raw 5000 [1, 2, 3]" 0]
    resample_delegates_unchecked [of toy_filters "eeg_raw 5000 [1, 2, 3]" 0]
  by (simp add: checking_filters_def toy_filters_def eeg_raw_def
      str_int_def str_nat.simps digit_char_def)

section \<open>Properties of channel averaging\<close>

lemma np_mean_single: "np_mean_axis0 [xs] = xs"
  by (simp add: np_mean_axis0_def n_cols_def map_nth)

lemma n_cols_rect:
  "a \<noteq> [] \<Longrightarrow> \<forall>row \<in> set a. length row = T \<Longrightarrow> n_cols a = T"
  by (cases a) (simp_all add: n_cols_def)

lemma column_sum: "sum_list (map (\<lambda>row. row ! t) a) = (\<Sum>c<length a. a ! c ! t)"
proof -
  have "sum_list (map (\<lambda>row. row ! t) a)
          = (\<Sum>c = 0..<length (map (\<lambda>row. row ! t) a). map (\<lambda>row. row ! t) a ! c)"
    by (rule sum_list_sum_nth)
  also have "\<dots> = (\<Sum>c<length a. a ! c ! t)"
    by (simp add: lessThan_atLeast0)
  finally show ?thesis .
qed

text \<open>
  Claim C9. For a container of \<open>N \<ge> 1\<close> channels, each of \<open>T\<close> samples, channel averaging
  returns one sequence of \<open>T\<close> values, the value at each time step being the sum of the
  \<open>N\<close> channel values at that step divided by \<open>N\<close>; for a single channel it returns that
  channel's samples unchanged. Samples are real numbers here.
\<close>

theorem average_signal_is_channel_mean:
  assumes "data r \<noteq> []" and "\<forall>row \<in> set (data r). length row = T"
  shows "\<exists>avg. snd (average_signal r) = Inr avg \<and> length avg = T
           \<and> (\<forall>t<T. avg ! t = (\<Sum>c<length (data r). data r ! c ! t) / real (length (data r)))
           \<and> (\<forall>xs. data r = [xs] \<longrightarrow> avg = xs)"
proof -
  have run: "snd (average_signal r) = Inr (np_mean_axis0 (data r))"
    by (simp add: average_signal_def Let_def get_data_def print_def call_def)
  have nc: "n_cols (data r) = T"
    using assms by (rule n_cols_rect)
  have len: "length (np_mean_axis0 (data r)) = T"
    by (simp add: np_mean_axis0_def nc)
  have val: "np_mean_axis0 (data r) ! t
               = (\<Sum>c<length (data r). data r ! c ! t) / real (length (data r))" if "t < T" for t
    using that by (simp add: np_mean_axis0_def nc column_sum)
  have one: "np_mean_axis0 (data r) = xs" if "data r = [xs]" for xs
    using that by (simp add: np_mean_single)
  show ?thesis
    using run len val one by blast
qed

text \<open>Two channels are averaged step by step; one channel comes back as it is.\<close>

theorem average_signal_is_channel_mean_witness:
  "snd (average_signal \<lparr>info = \<lparr>ch_names = [''C3'', ''C4''], sfreq = 5000,
                               ch_types = [''eeg'', ''eeg'']\<rparr>,
                        data = [[1, 2, 3], [3, 4, 8]]\<rparr>) = Inr [2, 3, 11 / 2]
   \<and> snd (average_signal (eeg_raw 5000 [1, 2, 3])) = Inr [1, 2, 3]"
proof -
  let ?two = "\<lparr>info = \<lparr>ch_names = [''C3'', ''C4''], sfreq = 5000,
                        ch_types = [''eeg'', ''eeg'']\<rparr>,
               data = [[1, 2, 3], [3, 4, 8 :: real]]\<rparr>"
  obtain avg where a: "snd (average_signal ?two) = Inr avg" "length avg = 3"
      "\<forall>t<3. avg ! t = (\<Sum>c<length (data ?two). data ?two ! c ! t) / real (length (data ?two))"
    using average_signal_is_channel_mean [of ?two 3] by auto
  have "avg ! 0 = 2" "avg ! 1 = 3" "avg ! 2 = 11 / 2"
    using a(3) [rule_format, of 0] a(3) [rule_format, of 1] a(3) [rule_format, of 2]
    by (simp_all add: lessThan_Suc numeral_2_eq_2)
  then have two: "avg = [2, 3, 11 / 2]"
    using a(2) by (auto simp: list_eq_iff_nth_eq less_Suc_eq numeral_3_eq_3 numeral_2_eq_2)
  obtain avg1 where b: "snd (average_signal (eeg_raw 5000 [1, 2, 3])) = Inr avg1"
      "\<forall>xs. data (eeg_raw 5000 [1, 2, 3]) = [xs] \<longrightarrow> avg1 = xs"
    using average_signal_is_channel_mean [of "eeg_raw 5000 [1, 2, 3]" 3]
    by (auto simp: eeg_raw_def)
  have one: "avg1 = [1, 2, 3]"
    using b(2) by (simp add: eeg_raw_def)
  show ?thesis
    using a(1) two b(1) one by simp
qed

section \<open>Properties of resampling after conversion\<close>

text \<open>
  Claim C10. The default target of the resample operation is 5000 Hz, the rate at which
  \<^verbatim>\<open>convert_to_fif\<close> builds its container. Given that MNE's resampling leaves a
  container at the requested rate, as it is documented to, resampling with the default
  argument a container built by the conversion leaves its sampling rate as it was.
\<close>

theorem default_resample_keeps_rate:
  assumes "resample_sets_rate L"
    and "convert_to_fif save eeg_data = Inr (Converted r message)"
    and "snd (apply_downsampling L r None) = Inr r'"
  shows "apply_downsampling L r None = apply_downsampling L r (Some 5000)
     \<and> sfreq (info r) = 5000 \<and> sfreq (info r') = sfreq (info r)"
proof -
  have built: "r = eeg_raw 5000 eeg_data"
    using assms(2) by (simp add: convert_to_fif_run split: sum.splits)
  have rate: "sfreq (info r) = 5000"
    by (simp add: built eeg_raw_def)
  have "lib_resample L r 5000 ''auto'' = Inr r'"
    using assms(3)
    by (cases "lib_resample L r 5000 ''auto''")
      (simp_all add: apply_downsampling_def call_def print_def)
  then have "sfreq (info r') = 5000"
    using assms(1) by (simp add: resample_sets_rate_def)
  then show ?thesis
    by (simp add: rate apply_downsampling_def)
qed

theorem default_resample_keeps_rate_witness:
  "resample_sets_rate toy_filters
   \<and> convert_to_fif ok_save [1, 2, 3]
       = Inr (Converted (eeg_raw 5000 [1, 2, 3])
                ''CSV converted to FIF and saved at eeg_data_raw.fif'')
   \<and> snd (apply_downsampling toy_filters (eeg_raw 5000 [1, 2, 3]) None)
       = Inr (eeg_raw 5000 [1, 2, 3])
   \<and> sfreq (info (eeg_raw 5000 [1, 2, 3])) = 5000"
proof -
  have k: "resample_sets_rate toy_filters"
    by (simp add: resample_sets_rate_def toy_filters_def)
  have c: "convert_to_fif ok_save [1, 2, 3]
       = Inr (Converted (eeg_raw 5000 [1, 2, 3])
                ''CSV converted to FIF and saved at eeg_data_raw.fif'')"
    by (simp add: convert_to_fif_run ok_save_def)
  have d: "snd (apply_downsampling toy_filters (eeg_raw 5000 [1, 2, 3]) None)
       = Inr (eeg_raw 5000 [1, 2, 3])"
    by (simp add: apply_downsampling_def toy_filters_def eeg_raw_def call_def print_def)
  show ?thesis
    using k c d default_resample_keeps_rate [OF k c d] by simp
qed

section \<open>Properties of cropped plotting\<close>

lemma times_last_eq:
  "0 < n_times r \<Longrightarrow> times_last r = Inr (real (n_times r - 1) / sfreq (info r))"
  by (simp add: times_last_def times_def last_map)

text \<open>
  Claim C6 fails on the code. \<^verbatim>\<open>plot_cropped_event_segment\<close> raises the start to 0
  and lowers the end to the last time point, and that is all: a start after the last
  time point is kept as it is. The window handed to the crop then ends before it starts,
  and when the crop refuses it, as MNE's does, the function fails with the crop's error.
\<close>

theorem cropped_plot_start_beyond_end:
  assumes "times_last r = Inr last_time"
    and "0 \<le> last_time" and "last_time < start_time"
    and "lib_crop P r start_time (min last_time end_time) = Inl e"
  shows "min last_time end_time < start_time
     \<and> snd (plot_cropped_event_segment P r event_name start_time end_time) = Inl e"
  using assms
  by (simp add: plot_cropped_event_segment_def Let_def call_def print_def max_def)

text \<open>
  The recording of 1,400,000 samples at 5000 Hz ends at 279.9998 s; the window from 300 s
  to 400 s is handed on as the window from 300 s to 279.9998 s.
\<close>

theorem cropped_plot_start_beyond_end_witness:
  "snd (plot_cropped_event_segment toy_plot (eeg_raw 5000 (replicate 1400000 0)) ''Late'' 300 400)
     = Inl (Exn ValueError ''tmin must be less than tmax'')"
proof -
  let ?r = "eeg_raw 5000 (replicate 1400000 0)"
  have a: "times_last ?r = Inr (1399999 / 5000)"
    by (simp add: times_last_eq n_times_def eeg_raw_def)
  have b: "lib_crop toy_plot ?r 300 (min (1399999 / 5000) 400)
             = Inl (Exn ValueError ''tmin must be less than tmax'')"
    by (simp add: toy_plot_def)
  show ?thesis
    using cropped_plot_start_beyond_end [OF a _ _ b, of "''Late''"]
    by simp
qed

end
